theory Spec2Isabelle
  imports
    Main
    "HOL-Library.Word"
    "HOL-Library.AList"
    "HOL-Library.Char_ord"
    "HOL-Library.List_Lexorder"
    "HOL-Library.Multiset"
begin

section \<open>Values of the request: JSON, undefined, exceptions\<close>

text \<open>
  The middlewares of \<^verbatim>\<open>src/middleware/index.ts\<close> read the parsed JSON body of an
  Express request. A JSON value is modelled as the datatype \<open>json\<close>; an object keeps its
  properties as an association list in insertion order (keys of a JavaScript object are
  distinct, and \<open>map_of\<close> reads the first binding). Numbers are integers: the only
  arithmetic of the file is the comparison \<^verbatim>\<open>now - t > 60\<close>, on the integer seconds of
  \<^verbatim>\<open>~~(Date.now() / 1000)\<close> and an integer parsed from a hex string.
  The JavaScript value \<^verbatim>\<open>undefined\<close> (a property that is missing) is \<open>None\<close> of
  \<open>json option\<close>.
\<close>

datatype json =
    JNull
  | JBool bool
  | JNum int
  | JStr string
  | JArr "json list"
  | JObj "(string \<times> json) list"

type_synonym obj = "(string \<times> json) list"

type_synonym jsval = "json option"

type_synonym byte = "8 word"

text \<open>
  A thrown value: the name of the error and the own properties written to it afterwards
  (\<^verbatim>\<open>error.index = index\<close> at line 136).
\<close>

datatype exn = Exn string obj

definition TypeError :: exn where
  "TypeError = Exn ''TypeError'' []"

text \<open>\<^verbatim>\<open>k in o\<close> and \<^verbatim>\<open>o[k]\<close> on an object.\<close>

definition has_key :: "string \<Rightarrow> obj \<Rightarrow> bool" where
  "has_key k ob = (map_of ob k \<noteq> None)"

text \<open>
  Reading a property of a value, as a destructuring \<^verbatim>\<open>const { k } = v\<close> does: it throws
  a TypeError on \<^verbatim>\<open>null\<close> and \<^verbatim>\<open>undefined\<close>, looks the key up in an object, and gives
  \<^verbatim>\<open>undefined\<close> on a string, number, boolean or array (none of the keys read in this
  file is a built-in property of those).
\<close>

fun get_prop :: "jsval \<Rightarrow> string \<Rightarrow> exn + jsval" where
  "get_prop None k = Inl TypeError"
| "get_prop (Some JNull) k = Inl TypeError"
| "get_prop (Some (JObj kvs)) k = Inr (map_of kvs k)"
| "get_prop (Some v) k = Inr None"

text \<open>\<^verbatim>\<open>Array.isArray\<close>.\<close>

fun isArray :: "jsval \<Rightarrow> bool" where
  "isArray (Some (JArr xs)) = True"
| "isArray v = False"

section \<open>Numbers: parseInt, ToString, ToNumber, ToInt32\<close>

definition is_space :: "char \<Rightarrow> bool" where
  "is_space c = (c \<in> set [CHR 0x09, CHR 0x0A, CHR 0x0B, CHR 0x0C, CHR 0x0D, CHR 0x20])"

definition digit_val :: "char \<Rightarrow> nat option" where
  "digit_val c =
     (let n = (of_char c :: nat) in
      if 48 \<le> n \<and> n \<le> 57 then Some (n - 48)
      else if 97 \<le> n \<and> n \<le> 122 then Some (n - 87)
      else if 65 \<le> n \<and> n \<le> 90 then Some (n - 55)
      else None)"

text \<open>The longest prefix of digits of the radix, as digit values.\<close>

fun radix_digits :: "nat \<Rightarrow> string \<Rightarrow> nat list" where
  "radix_digits R [] = []"
| "radix_digits R (c # cs) =
     (case digit_val c of
        None \<Rightarrow> []
      | Some d \<Rightarrow> if d < R then d # radix_digits R cs else [])"

definition digits_value :: "nat \<Rightarrow> nat list \<Rightarrow> nat" where
  "digits_value R ds = foldl (\<lambda>a d. a * R + d) 0 ds"

text \<open>
  \<^verbatim>\<open>parseInt(string, radix)\<close> of ECMAScript on a string: leading white space is dropped,
  a sign is read, with radix 16 (or 0) a prefix \<^verbatim>\<open>0x\<close>/\<^verbatim>\<open>0X\<close> is dropped, and the
  longest prefix of digits is the value; no digit at all gives \<^verbatim>\<open>NaN\<close>, here \<open>None\<close>.
  Whatever follows the digits is ignored. The value is the exact integer: the double that
  JavaScript computes differs from it only beyond \<open>2^53\<close>, where the sign of
  \<^verbatim>\<open>now - t - 60\<close> is the same for both.
\<close>

definition parseInt :: "string \<Rightarrow> nat \<Rightarrow> int option" where
  "parseInt inputString radix =
     (let S = dropWhile is_space inputString;
          sign = (if take 1 S = ''-'' then - 1 else (1::int));
          S1 = (if take 1 S = ''+'' \<or> take 1 S = ''-'' then drop 1 S else S);
          stripPrefix = (radix = 0 \<or> radix = 16);
          R0 = (if radix = 0 then 10 else radix);
          hasPrefix = (stripPrefix \<and> (take 2 S1 = ''0x'' \<or> take 2 S1 = ''0X''));
          S2 = (if hasPrefix then drop 2 S1 else S1);
          R = (if hasPrefix then 16 else R0);
          Z = radix_digits R S2
      in if radix \<noteq> 0 \<and> (radix < 2 \<or> 36 < radix) then None
         else if Z = [] then None
         else Some (sign * int (digits_value R Z)))"

text \<open>Decimal digits of a number, for \<^verbatim>\<open>ToString\<close>.\<close>

fun show_nat :: "nat \<Rightarrow> string" where
  "show_nat n =
     (if n < 10 then [char_of (48 + n)]
      else show_nat (n div 10) @ [char_of (48 + n mod 10)])"

definition show_int :: "int \<Rightarrow> string" where
  "show_int i = (if i < 0 then CHR ''-'' # show_nat (nat (- i)) else show_nat (nat i))"

fun join_with :: "string \<Rightarrow> string list \<Rightarrow> string" where
  "join_with sep [] = []"
| "join_with sep [x] = x"
| "join_with sep (x # y # ys) = x @ sep @ join_with sep (y # ys)"

text \<open>
  \<^verbatim>\<open>ToString\<close>, which \<^verbatim>\<open>parseInt\<close> applies to its argument: an array is its elements
  joined by commas (\<^verbatim>\<open>null\<close> as the empty string), an object is
  \<^verbatim>\<open>[object Object]\<close>. Integers are printed in decimal (JavaScript switches to the
  exponent form from \<open>10^21\<close> on, beyond the integers a timestamp in seconds takes).
\<close>

fun to_string :: "json \<Rightarrow> string" where
  "to_string JNull = ''null''"
| "to_string (JBool b) = (if b then ''true'' else ''false'')"
| "to_string (JNum n) = show_int n"
| "to_string (JStr s) = s"
| "to_string (JArr xs) =
     join_with '','' (map (\<lambda>x. if x = JNull then [] else to_string x) xs)"
| "to_string (JObj kvs) = ''[object Object]''"

definition ToString :: "jsval \<Rightarrow> string" where
  "ToString v = (case v of None \<Rightarrow> ''undefined'' | Some j \<Rightarrow> to_string j)"

text \<open>
  \<^verbatim>\<open>~~x\<close> is \<^verbatim>\<open>ToInt32\<close>: the integer part of \<open>x\<close>, reduced modulo \<open>2^32\<close> to a
  signed 32-bit value. \<^verbatim>\<open>Date.now()\<close> is an integer number of milliseconds.
\<close>

definition trunc_div :: "int \<Rightarrow> int \<Rightarrow> int" where
  "trunc_div a b = (if 0 \<le> a then a div b else - ((- a) div b))"

definition ToInt32 :: "int \<Rightarrow> int" where
  "ToInt32 x = sint (word_of_int x :: 32 word)"





section \<open>Buffers and hex strings\<close>

definition hex_digit :: "nat \<Rightarrow> char" where
  "hex_digit n = (if n < 10 then char_of (48 + n) else char_of (87 + n))"

text \<open>\<^verbatim>\<open>buf.toString("hex")\<close>: two lower-case hex digits for each byte.\<close>

definition toString_hex :: "byte list \<Rightarrow> string" where
  "toString_hex buf =
     concat (map (\<lambda>b. [hex_digit (unat b div 16), hex_digit (unat b mod 16)]) buf)"

text \<open>
  \<^verbatim>\<open>Buffer.from(str, "hex")\<close>: pairs of hex digits are decoded up to the first pair that
  is not hex; a last single character is dropped.
\<close>

fun Buffer_from_hex :: "string \<Rightarrow> byte list" where
  "Buffer_from_hex (c1 # c2 # cs) =
     (case (digit_val c1, digit_val c2) of
        (Some h, Some l) \<Rightarrow>
          if h < 16 \<and> l < 16 then word_of_nat (16 * h + l) # Buffer_from_hex cs else []
      | _ \<Rightarrow> [])"
| "Buffer_from_hex cs = []"

text \<open>\<^verbatim>\<open>str.substring(start, end)\<close>: both indices clamped to the length, swapped if needed.\<close>

definition substring :: "string \<Rightarrow> nat \<Rightarrow> nat \<Rightarrow> string" where
  "substring s start end =
     (let a = min start (length s); b = min end (length s)
      in take (max a b - min a b) (drop (min a b) s))"

section \<open>Canonical serialisation\<close>

text \<open>
  Modelled from the spec: the fixed textual encoding of a string scalar and of a key,
  which is missing from the source file (the package \<^verbatim>\<open>json-stable-stringify\<close> takes it
  from \<^verbatim>\<open>JSON.stringify\<close>): the string between double quotes, the double quote and
  the backslash escaped.
\<close>

definition quote :: "string \<Rightarrow> string" where
  "quote s =
     [CHR 0x22] @
     concat (map (\<lambda>c. if c = CHR 0x22 \<or> c = CHR 0x5C then [CHR 0x5C, c] else [c]) s) @
     [CHR 0x22]"

text \<open>
  Modelled from the spec: \<^verbatim>\<open>stringify\<close> is the default export of the package
  \<^verbatim>\<open>json-stable-stringify\<close>, which is not part of the source file. The spec (4.1)
  describes it: mappings are serialised with keys sorted by a fixed total order (byte-wise
  ascending), arrays preserve element order, scalars use a fixed textual encoding.
\<close>

fun stringify_json :: "json \<Rightarrow> string" where
  "stringify_json JNull = ''null''"
| "stringify_json (JBool b) = (if b then ''true'' else ''false'')"
| "stringify_json (JNum n) = show_int n"
| "stringify_json (JStr s) = quote s"
| "stringify_json (JArr xs) = ''['' @ join_with '','' (map stringify_json xs) @ '']''"
| "stringify_json (JObj kvs) =
     ''{'' @
     join_with '',''
       (map (\<lambda>(k, s). quote k @ '':'' @ s)
         (sort_key fst (map (\<lambda>(k, v). (k, stringify_json v)) kvs))) @
     ''}''"

text \<open>
  Modelled from the spec: the call \<^verbatim>\<open>stringify(v)\<close> of the source on a value that may
  be \<^verbatim>\<open>undefined\<close>, for which there is nothing to serialise and the result is
  \<^verbatim>\<open>undefined\<close>.
\<close>

definition stringify :: "jsval \<Rightarrow> string option" where
  "stringify v = map_option stringify_json v"

section \<open>The collaborators of the middlewares\<close>

text \<open>
  What the file imports and does not define is a field of the environment:
  \<^item> \<open>Date_now\<close>: the value of \<^verbatim>\<open>Date.now()\<close>, in milliseconds;
  \<^item> \<open>validateInput\<close>: the function of \<^verbatim>\<open>../validations\<close>, returning the pair
    \<^verbatim>\<open>{ errors, isValid }\<close> or throwing; it is taken not to change its argument;
  \<^item> \<open>getError\<close>: the function of \<^verbatim>\<open>../utils\<close> that turns a caught error into the
    JSON of the response;
  \<^item> \<open>keyFromPublic\<close>, \<open>verify\<close>: the methods of the \<^verbatim>\<open>elliptic\<close> curve object;
  \<^item> \<open>keccak256\<close>: the hash of \<^verbatim>\<open>js-sha3\<close>, on a string or \<^verbatim>\<open>undefined\<close>;
  \<^item> \<open>base64_decode\<close>: the bytes of \<^verbatim>\<open>Buffer.from(str, "base64")\<close> for a string;
  \<^item> \<open>Buffer_from_other\<close>: \<^verbatim>\<open>Buffer.from(v, enc)\<close> for a value \<open>v\<close> that is not a
    string (the encoding is then ignored).
  Logging (\<^verbatim>\<open>log.error\<close>) does not change a verdict and is left out.
\<close>

datatype encoding = Hex | Base64

datatype sig_arg = SigRS "byte list" "byte list" | SigRaw jsval

datatype 'k key_arg = KeyPair 'k | KeyBuf "byte list"

record 'k env =
  Date_now :: int
  validateInput :: "json \<Rightarrow> string list \<Rightarrow> exn + (obj \<times> bool)"
  getError :: "exn \<Rightarrow> json"
  keyFromPublic :: "jsval \<Rightarrow> jsval \<Rightarrow> exn + 'k"
  verify :: "string \<Rightarrow> sig_arg \<Rightarrow> 'k key_arg \<Rightarrow> exn + bool"
  keccak256 :: "string option \<Rightarrow> exn + string"
  base64_decode :: "string \<Rightarrow> byte list"
  Buffer_from_other :: "jsval \<Rightarrow> exn + byte list"

definition Buffer_from :: "'k env \<Rightarrow> jsval \<Rightarrow> encoding \<Rightarrow> exn + byte list" where
  "Buffer_from env v enc =
     (case v of
        Some (JStr s) \<Rightarrow>
          (case enc of Hex \<Rightarrow> Inr (Buffer_from_hex s) | Base64 \<Rightarrow> Inr (base64_decode env s))
      | _ \<Rightarrow> Buffer_from_other env v)"

text \<open>\<^verbatim>\<open>~~(Date.now() / 1000)\<close>\<close>

definition nowSeconds :: "'k env \<Rightarrow> int" where
  "nowSeconds env = ToInt32 (trunc_div (Date_now env) 1000)"

text \<open>
  The comparison \<^verbatim>\<open>~~(Date.now() / 1000) - timeParsed > 60\<close>; it is false when
  \<^verbatim>\<open>timeParsed\<close> is \<^verbatim>\<open>NaN\<close>.
\<close>

definition signed_too_long_ago :: "'k env \<Rightarrow> int option \<Rightarrow> bool" where
  "signed_too_long_ago env timeParsed =
     (case timeParsed of None \<Rightarrow> False | Some t \<Rightarrow> nowSeconds env - t > 60)"

section \<open>Requests and verdicts\<close>

text \<open>
  A request holds \<^verbatim>\<open>req.body\<close>, \<^verbatim>\<open>req.query\<close> and \<^verbatim>\<open>res.locals\<close>, each an
  object: the body as the JSON body parser of Express delivers it, the query as the
  query parser does. A middleware ends in one of three ways: it calls \<^verbatim>\<open>next()\<close> (with the \<^verbatim>\<open>res.locals\<close> it leaves),
  it sends \<^verbatim>\<open>res.status(n).json(v)\<close>, or an exception leaves it.
\<close>

record request =
  body :: obj
  query :: obj
  locals :: obj

datatype outcome = Next obj | Respond nat json | Throw exn

definition error_response :: "json \<Rightarrow> json" where
  "error_response e = JObj [(''error'', e), (''success'', JBool False)]"


definition msg_stale :: string where
  "msg_stale = ''Message has been signed more than 60s ago''"

definition msg_nonce :: string where
  "msg_nonce = ''Should be equal to '' @ [CHR 0x27] @ ''getOrSetNonce'' @ [CHR 0x27] @
     '' or '' @ [CHR 0x27] @ ''getNonce'' @ [CHR 0x27]"

text \<open>\<^verbatim>\<open>const { set_data: setData = {} } = ...\<close>: the default replaces \<^verbatim>\<open>undefined\<close> only.\<close>

definition default_empty :: "jsval \<Rightarrow> json" where
  "default_empty v = (case v of None \<Rightarrow> JObj [] | Some j \<Rightarrow> j)"

section \<open>The middlewares\<close>

subsection \<open>validationMiddleware, validationLoopMiddleware (lines 13 to 49)\<close>

definition validationMiddleware :: "'k env \<Rightarrow> string list \<Rightarrow> bool \<Rightarrow> request \<Rightarrow> outcome" where
  "validationMiddleware env items isBody req =
     (case validateInput env (JObj (if isBody then body req else query req)) items of
        Inl error \<Rightarrow> Respond 500 (error_response (getError env error))
      | Inr (errors, isValid) \<Rightarrow>
          if \<not> isValid then Respond 400 (error_response (JObj errors))
          else Next (locals req))"

fun validationLoop :: "'k env \<Rightarrow> string list \<Rightarrow> obj \<Rightarrow> nat \<Rightarrow> json list \<Rightarrow> outcome" where
  "validationLoop env items lcl index [] = Next lcl"
| "validationLoop env items lcl index (param # rest) =
     (case validateInput env param items of
        Inl error \<Rightarrow> Respond 500 (error_response (getError env error))
      | Inr (errors, isValid) \<Rightarrow>
          if \<not> isValid
          then Respond 400
                 (error_response (JObj (AList.update ''index'' (JNum (int index)) errors)))
          else validationLoop env items lcl (Suc index) rest)"

definition validationLoopMiddleware ::
  "'k env \<Rightarrow> string list \<Rightarrow> string \<Rightarrow> bool \<Rightarrow> request \<Rightarrow> outcome" where
  "validationLoopMiddleware env items key isBody req =
     (let paramsObject = (if isBody then body req else query req);
          mainParamToTest = map_of paramsObject key
      in case mainParamToTest of
           Some (JArr xs) \<Rightarrow> validationLoop env items (locals req) 0 xs
         | _ \<Rightarrow> Respond 400
                 (error_response (JObj [(''message'', JStr (key @ '' must be an array''))])))"

subsection \<open>validateMetadataInput, validateMetadataLoopInput (lines 51 to 89)\<close>

definition validateMetadataInput :: "'k env \<Rightarrow> request \<Rightarrow> outcome" where
  "validateMetadataInput env req =
     (let setData = default_empty (map_of (body req) ''set_data'')
      in case validateInput env setData [''data'', ''timestamp''] of
           Inl error \<Rightarrow> Throw error
         | Inr (errors, isValid) \<Rightarrow>
             if \<not> isValid then Respond 400 (error_response (JObj errors))
             else (case get_prop (Some setData) ''timestamp'' of
                     Inl error \<Rightarrow> Throw error
                   | Inr timestamp \<Rightarrow>
                       let timeParsed = parseInt (ToString timestamp) 16
                       in if signed_too_long_ago env timeParsed
                          then Respond 403
                                 (error_response
                                   (JObj (AList.update ''timestamp'' (JStr msg_stale) errors)))
                          else Next (locals req)))"

text \<open>
  The loop over \<^verbatim>\<open>mainParamToTest.entries()\<close>. The test \<^verbatim>\<open>Array.isArray\<close> is commented
  out in the source (lines 71 to 73): on a value that is no array the call of
  \<^verbatim>\<open>entries\<close> throws a TypeError, which no handler of the function catches.
\<close>

fun metadataLoop :: "'k env \<Rightarrow> obj \<Rightarrow> nat \<Rightarrow> json list \<Rightarrow> outcome" where
  "metadataLoop env lcl index [] = Next lcl"
| "metadataLoop env lcl index (param # rest) =
     (case get_prop (Some param) ''set_data'' of
        Inl error \<Rightarrow> Throw error
      | Inr sd \<Rightarrow>
          let setData = default_empty sd
          in (case validateInput env setData [''data'', ''timestamp''] of
                Inl error \<Rightarrow> Throw error
              | Inr (errors, isValid) \<Rightarrow>
                  if \<not> isValid
                  then Respond 400
                         (error_response
                           (JObj (AList.update ''index'' (JNum (int index)) errors)))
                  else (case get_prop (Some setData) ''timestamp'' of
                          Inl error \<Rightarrow> Throw error
                        | Inr timestamp \<Rightarrow>
                            let timeParsed = parseInt (ToString timestamp) 16
                            in if signed_too_long_ago env timeParsed
                               then Respond 403
                                      (error_response
                                        (JObj (AList.update ''timestamp'' (JStr msg_stale)
                                                errors)))
                               else metadataLoop env lcl (Suc index) rest)))"

definition validateMetadataLoopInput ::
  "'k env \<Rightarrow> string \<Rightarrow> bool \<Rightarrow> request \<Rightarrow> outcome" where
  "validateMetadataLoopInput env key isBody req =
     (let paramsObject = (if isBody then body req else query req);
          mainParamToTest = map_of paramsObject key
      in case mainParamToTest of
           Some (JArr xs) \<Rightarrow> metadataLoop env (locals req) 0 xs
         | _ \<Rightarrow> Throw TypeError)"

subsection \<open>Signature verification (lines 91 to 142 and 221 to 245)\<close>

text \<open>
  Lines 94 to 100, 124 to 130 and 228 to 234 are the same statements: the key pair is
  built from the two coordinates, the signature is decoded from base64 and printed in hex,
  the hex characters 0 to 63 are \<open>r\<close> and 64 to 127 are \<open>s\<close>, and the hash of the
  canonical string of \<open>setData\<close> is verified. Any of the calls may throw; the first throw
  ends the block.
\<close>

definition verifyEnvelope :: "'k env \<Rightarrow> jsval \<Rightarrow> jsval \<Rightarrow> jsval \<Rightarrow> jsval \<Rightarrow> exn + bool" where
  "verifyEnvelope env pubKeyX pubKeyY signature setData =
     (case keyFromPublic env pubKeyX pubKeyY of
        Inl error \<Rightarrow> Inl error
      | Inr pubKey \<Rightarrow>
          (case Buffer_from env signature Base64 of
             Inl error \<Rightarrow> Inl error
           | Inr buf \<Rightarrow>
               let decodedSignature = toString_hex buf;
                   r = Buffer_from_hex (substring decodedSignature 0 64);
                   s = Buffer_from_hex (substring decodedSignature 64 128)
               in (case keccak256 env (stringify setData) of
                     Inl error \<Rightarrow> Inl error
                   | Inr hash \<Rightarrow> verify env hash (SigRS r s) (KeyPair pubKey))))"

definition invalid_signature :: obj where
  "invalid_signature = [(''signature'', JStr ''Invalid signature'')]"

definition validateSignature :: "'k env \<Rightarrow> request \<Rightarrow> outcome" where
  "validateSignature env req =
     (case verifyEnvelope env (map_of (body req) ''pub_key_X'') (map_of (body req) ''pub_key_Y'')
             (map_of (body req) ''signature'') (map_of (body req) ''set_data'') of
        Inl error \<Rightarrow> Respond 500 (error_response (getError env error))
      | Inr isValidSignature \<Rightarrow>
          if \<not> isValidSignature then Respond 403 (error_response (JObj invalid_signature))
          else Next (locals req))"

text \<open>
  The destructuring of a batch item (line 123) is inside the \<^verbatim>\<open>try\<close>: it throws on
  \<^verbatim>\<open>null\<close>.
\<close>

definition verifyParam :: "'k env \<Rightarrow> json \<Rightarrow> exn + bool" where
  "verifyParam env param =
     (case get_prop (Some param) ''pub_key_X'' of
        Inl error \<Rightarrow> Inl error
      | Inr pubKeyX \<Rightarrow>
          (case get_prop (Some param) ''pub_key_Y'' of
             Inl error \<Rightarrow> Inl error
           | Inr pubKeyY \<Rightarrow>
               (case get_prop (Some param) ''signature'' of
                  Inl error \<Rightarrow> Inl error
                | Inr signature \<Rightarrow>
                    (case get_prop (Some param) ''set_data'' of
                       Inl error \<Rightarrow> Inl error
                     | Inr setData \<Rightarrow> verifyEnvelope env pubKeyX pubKeyY signature setData))))"

text \<open>\<^verbatim>\<open>error.index = index\<close>\<close>

fun set_index :: "nat \<Rightarrow> exn \<Rightarrow> exn" where
  "set_index index (Exn name props) = Exn name (AList.update ''index'' (JNum (int index)) props)"

fun signatureLoop :: "'k env \<Rightarrow> obj \<Rightarrow> nat \<Rightarrow> json list \<Rightarrow> outcome" where
  "signatureLoop env lcl index [] = Next lcl"
| "signatureLoop env lcl index (param # rest) =
     (case verifyParam env param of
        Inl error \<Rightarrow> Respond 500 (error_response (getError env (set_index index error)))
      | Inr isValidSignature \<Rightarrow>
          if \<not> isValidSignature
          then Respond 403
                 (error_response
                   (JObj [(''index'', JNum (int index)),
                          (''signature'', JStr ''Invalid signature'')]))
          else signatureLoop env lcl (Suc index) rest)"

definition validateLoopSignature ::
  "'k env \<Rightarrow> string \<Rightarrow> bool \<Rightarrow> request \<Rightarrow> outcome" where
  "validateLoopSignature env key isBody req =
     (let paramsObject = (if isBody then body req else query req);
          mainParamToTest = map_of paramsObject key
      in case mainParamToTest of
           Some (JArr xs) \<Rightarrow> signatureLoop env (locals req) 0 xs
         | _ \<Rightarrow> Throw TypeError)"

subsection \<open>validateLockData (lines 172 to 188)\<close>



subsection \<open>The optional-signature middlewares (lines 190 to 245)\<close>

definition validV2InputWithSig :: "obj \<Rightarrow> bool" where
  "validV2InputWithSig b =
     (if has_key ''set_data'' b \<and> has_key ''pub_key_X'' b \<and> has_key ''pub_key_Y'' b \<and>
         has_key ''signature'' b
      then True else False)"

text \<open>\<^verbatim>\<open>res.locals.noValidSig = true\<close>\<close>

definition set_noValidSig :: "obj \<Rightarrow> obj" where
  "set_noValidSig lcl = AList.update ''noValidSig'' (JBool True) lcl"

text \<open>\<^verbatim>\<open>["getOrSetNonce", "getNonce"].includes(data)\<close>\<close>

definition nonce_commands_include :: "jsval \<Rightarrow> bool" where
  "nonce_commands_include data =
     (data = Some (JStr ''getOrSetNonce'') \<or> data = Some (JStr ''getNonce''))"

definition validateGetOrSetNonceSetInput :: "'k env \<Rightarrow> request \<Rightarrow> outcome" where
  "validateGetOrSetNonceSetInput env req =
     (if \<not> validV2InputWithSig (body req) then Next (set_noValidSig (locals req))
      else
        let setData = default_empty (map_of (body req) ''set_data'')
        in (case validateInput env setData [''data'', ''timestamp''] of
              Inl error \<Rightarrow> Throw error
            | Inr (errors, isValid) \<Rightarrow>
                if \<not> isValid then Respond 400 (error_response (JObj errors))
                else (case get_prop (Some setData) ''timestamp'' of
                        Inl error \<Rightarrow> Throw error
                      | Inr timestamp \<Rightarrow>
                          (case get_prop (Some setData) ''data'' of
                             Inl error \<Rightarrow> Throw error
                           | Inr data \<Rightarrow>
                               if \<not> nonce_commands_include data
                               then Respond 403
                                      (error_response
                                        (JObj (AList.update ''data'' (JStr msg_nonce) errors)))
                               else
                                 let timeParsed = parseInt (ToString timestamp) 16
                                 in if signed_too_long_ago env timeParsed
                                    then Respond 403
                                           (error_response
                                             (JObj (AList.update ''timestamp''
                                                     (JStr msg_stale) errors)))
                                    else Next (locals req)))))"

definition validateGetOrSetNonceSignature :: "'k env \<Rightarrow> request \<Rightarrow> outcome" where
  "validateGetOrSetNonceSignature env req =
     (if \<not> validV2InputWithSig (body req) then Next (set_noValidSig (locals req))
      else
        (case verifyEnvelope env (map_of (body req) ''pub_key_X'')
                (map_of (body req) ''pub_key_Y'') (map_of (body req) ''signature'')
                (map_of (body req) ''set_data'') of
           Inl error \<Rightarrow> Respond 500 (error_response (getError env error))
         | Inr isValidSignature \<Rightarrow>
             if \<not> isValidSignature then Respond 403 (error_response (JObj invalid_signature))
             else Next (locals req)))"

section \<open>Payloads that are equal as data\<close>

text \<open>
  Two JSON values are equal as data when they differ at most in the order in which the
  properties of their objects were inserted: scalars are equal, arrays are equal
  element by element, and two objects (with distinct keys each) have the same keys with
  values that are equal as data.
\<close>

inductive json_equiv :: "json \<Rightarrow> json \<Rightarrow> bool" where
  equiv_null: "json_equiv JNull JNull"
| equiv_bool: "json_equiv (JBool b) (JBool b)"
| equiv_num: "json_equiv (JNum n) (JNum n)"
| equiv_str: "json_equiv (JStr s) (JStr s)"
| equiv_arr: "list_all2 json_equiv xs ys \<Longrightarrow> json_equiv (JArr xs) (JArr ys)"
| equiv_obj:
    "distinct (map fst kvs) \<Longrightarrow> distinct (map fst kvs') \<Longrightarrow>
     (\<forall>k. rel_option json_equiv (map_of kvs k) (map_of kvs' k)) \<Longrightarrow>
     json_equiv (JObj kvs) (JObj kvs')"
  monos list.rel_mono option.rel_mono

section \<open>A concrete environment for evaluating the middlewares\<close>

text \<open>
  Modelled from the spec: the kind rule of \<^verbatim>\<open>validateInput\<close>, which is not in the
  source file. The spec (4.3): a field must exist and be non-empty, that is a non-empty
  string, or present and not null for a structured field.
\<close>

definition field_empty :: "jsval \<Rightarrow> bool" where
  "field_empty v = (v = None \<or> v = Some JNull \<or> v = Some (JStr []))"

text \<open>
  Modelled from the spec: the field of a payload by name, for \<^verbatim>\<open>validateInput\<close>, which
  is not in the source file; a payload that is no mapping has no field.
\<close>

definition payload_field :: "json \<Rightarrow> string \<Rightarrow> jsval" where
  "payload_field payload f = (case payload of JObj kvs \<Rightarrow> map_of kvs f | _ \<Rightarrow> None)"

text \<open>
  Modelled from the spec: \<^verbatim>\<open>validateInput\<close> of \<^verbatim>\<open>../validations\<close> is not in the
  source file. The spec (4.3): for each name in the required fields, the field must exist
  in the payload and be non-empty; on failure for field \<open>f\<close> the error
  \<^verbatim>\<open>errors[f] = "<f> is required"\<close> is recorded and the remaining fields are still
  checked; \<open>isValid\<close> is true only if \<open>errors\<close> is empty.
\<close>

definition validateInput_spec :: "json \<Rightarrow> string list \<Rightarrow> exn + (obj \<times> bool)" where
  "validateInput_spec payload requiredFields =
     (let errors =
            foldl (\<lambda>errs f. if field_empty (payload_field payload f)
                             then AList.update f (JStr (f @ '' is required'')) errs else errs)
              [] requiredFields
      in Inr (errors, errors = []))"

text \<open>
  Modelled from the spec: \<^verbatim>\<open>getError\<close> of \<^verbatim>\<open>../utils\<close> is not in the source file.
  The spec (7): an internal error is surfaced with a normalised message, here the name of
  the error.
\<close>

fun getError_spec :: "exn \<Rightarrow> json" where
  "getError_spec (Exn name props) = JObj [(''message'', JStr name)]"

text \<open>
  The standard base64 alphabet, decoded up to the first character outside it (the
  padding): what \<^verbatim>\<open>Buffer.from(str, "base64")\<close> gives on a well-formed string.
\<close>

definition b64_val :: "char \<Rightarrow> nat option" where
  "b64_val c =
     (let n = (of_char c :: nat) in
      if 65 \<le> n \<and> n \<le> 90 then Some (n - 65)
      else if 97 \<le> n \<and> n \<le> 122 then Some (n - 71)
      else if 48 \<le> n \<and> n \<le> 57 then Some (n + 4)
      else if n = 43 then Some 62
      else if n = 47 then Some 63
      else None)"

fun b64_sextets :: "string \<Rightarrow> nat list" where
  "b64_sextets [] = []"
| "b64_sextets (c # cs) = (case b64_val c of None \<Rightarrow> [] | Some v \<Rightarrow> v # b64_sextets cs)"

fun b64_bytes :: "nat list \<Rightarrow> byte list" where
  "b64_bytes (a # b # c # d # rest) =
     word_of_nat (a * 4 + b div 16) # word_of_nat ((b mod 16) * 16 + c div 4) #
     word_of_nat ((c mod 4) * 64 + d) # b64_bytes rest"
| "b64_bytes [a, b, c] = [word_of_nat (a * 4 + b div 16), word_of_nat ((b mod 16) * 16 + c div 4)]"
| "b64_bytes [a, b] = [word_of_nat (a * 4 + b div 16)]"
| "b64_bytes ds = []"

definition base64_standard :: "string \<Rightarrow> byte list" where
  "base64_standard s = b64_bytes (b64_sextets s)"

text \<open>
  Stand-ins for the cryptographic library, used only to evaluate the middlewares at
  concrete requests: a key pair is the pair of its coordinates, the hash is the message
  itself, and the verifier accepts exactly the signature with \<open>r\<close> = 32 bytes 01 and
  \<open>s\<close> = 32 bytes 02 (and, for a raw signature, the string \<^verbatim>\<open>ok\<close>). Like ECDSA it
  rejects \<open>r = 0\<close>. The general theorems hold for every environment.
\<close>

definition keyFromPublic_toy :: "jsval \<Rightarrow> jsval \<Rightarrow> exn + (string \<times> string)" where
  "keyFromPublic_toy x y =
     (case (x, y) of
        (Some (JStr a), Some (JStr b)) \<Rightarrow> Inr (a, b)
      | _ \<Rightarrow> Inl (Exn ''Error'' []))"

definition keccak256_toy :: "string option \<Rightarrow> exn + string" where
  "keccak256_toy m = (case m of None \<Rightarrow> Inl (Exn ''Error'' []) | Some s \<Rightarrow> Inr s)"

definition verify_toy :: "string \<Rightarrow> sig_arg \<Rightarrow> (string \<times> string) key_arg \<Rightarrow> exn + bool" where
  "verify_toy hash sg key =
     (case sg of
        SigRS r s \<Rightarrow>
          Inr (length r = 32 \<and> list_all (\<lambda>b. b = 1) r \<and> length s = 32 \<and> list_all (\<lambda>b. b = 2) s)
      | SigRaw v \<Rightarrow> Inr (v = Some (JStr ''ok'')))"

definition toy_env :: "(string \<times> string) env" where
  "toy_env =
     \<lparr> Date_now = 1700000000123,
       validateInput = validateInput_spec,
       getError = getError_spec,
       keyFromPublic = keyFromPublic_toy,
       verify = verify_toy,
       keccak256 = keccak256_toy,
       base64_decode = base64_standard,
       Buffer_from_other = (\<lambda>v. Inl TypeError) \<rparr>"

definition sig64 :: string where
  "sig64 = ''AQEBAQEBAQEBAQEBAQEBAQEBAQEBAQEBAQEBAQEBAQECAgICAgICAgICAgICAgICAgICAgICAgICAgICAgICAg==''"



definition envelope :: "json \<Rightarrow> string \<Rightarrow> obj" where
  "envelope setData signature =
     [(''pub_key_X'', JStr ''aa''), (''pub_key_Y'', JStr ''bb''),
      (''set_data'', setData), (''signature'', JStr signature)]"

definition request_of :: "obj \<Rightarrow> request" where
  "request_of b = \<lparr> body = b, query = [], locals = [] \<rparr>"

section \<open>Evaluating the concrete environment\<close>

lemma nowSeconds_toy: "nowSeconds toy_env = 1700000000"
  by (simp add: nowSeconds_def toy_env_def ToInt32_def trunc_div_def)

text \<open>
  From 19 January 2038 on, \<^verbatim>\<open>~~\<close> wraps the seconds into the negative half of the
  32-bit range.
\<close>

lemma nowSeconds_wraps: "nowSeconds (toy_env\<lparr>Date_now := 2147483648000\<rparr>) = - 2147483648"
  by (simp add: nowSeconds_def ToInt32_def trunc_div_def)

lemma validateInput_toy: "validateInput toy_env = validateInput_spec"
  by (simp add: toy_env_def)

lemmas parseInt_eval = parseInt_def is_space_def digit_val_def digits_value_def

lemmas validateInput_eval =
  validateInput_toy validateInput_spec_def field_empty_def payload_field_def

section \<open>The optional-signature mode\<close>

lemma validV2_absent:
  assumes "k \<in> {''set_data'', ''pub_key_X'', ''pub_key_Y'', ''signature''}"
    and "map_of b k = None"
  shows "\<not> validV2InputWithSig b"
  using assms by (auto simp: validV2InputWithSig_def has_key_def)

text \<open>
  Claim C1. In the optional-signature mode, when one of the four fields \<open>set_data\<close>,
  \<open>pub_key_X\<close>, \<open>pub_key_Y\<close>, \<open>signature\<close> is absent from the body, both
  \<open>validateGetOrSetNonceSetInput\<close> and \<open>validateGetOrSetNonceSignature\<close> call
  \<^verbatim>\<open>next()\<close> with \<^verbatim>\<open>res.locals.noValidSig\<close> set to true, whatever the environment
  (the validator, the clock and the verifier are not consulted) and whatever the other
  fields hold: no response with status 400 or 403 is sent.
\<close>

theorem optional_mode_skips_verification:
  assumes "k \<in> {''set_data'', ''pub_key_X'', ''pub_key_Y'', ''signature''}"
    and "map_of (body req) k = None"
  shows "validateGetOrSetNonceSetInput env req = Next (set_noValidSig (locals req)) \<and>
         validateGetOrSetNonceSignature env req = Next (set_noValidSig (locals req)) \<and>
         map_of (set_noValidSig (locals req)) ''noValidSig'' = Some (JBool True)"
proof -
  have "\<not> validV2InputWithSig (body req)"
    using assms by (rule validV2_absent)
  then show ?thesis
    by (simp add: validateGetOrSetNonceSetInput_def validateGetOrSetNonceSignature_def
        set_noValidSig_def update_conv')
qed

text \<open>
  A body without \<open>signature\<close> whose \<open>set_data\<close> is \<^verbatim>\<open>null\<close> (which the validator
  would reject) passes both middlewares with the flag set.
\<close>

theorem optional_mode_skips_verification_witness:
  "map_of [(''pub_key_X'', JStr ''aa''), (''pub_key_Y'', JStr ''bb''), (''set_data'', JNull)]
     ''signature'' = None \<and>
   validateGetOrSetNonceSetInput toy_env
     (request_of [(''pub_key_X'', JStr ''aa''), (''pub_key_Y'', JStr ''bb''), (''set_data'', JNull)])
     = Next [(''noValidSig'', JBool True)] \<and>
   validateGetOrSetNonceSignature toy_env
     (request_of [(''pub_key_X'', JStr ''aa''), (''pub_key_Y'', JStr ''bb''), (''set_data'', JNull)])
     = Next [(''noValidSig'', JBool True)]"
  using optional_mode_skips_verification [of "''signature''"
      "request_of [(''pub_key_X'', JStr ''aa''), (''pub_key_Y'', JStr ''bb''), (''set_data'', JNull)]"
      toy_env]
  by (simp add: request_of_def set_noValidSig_def)

text \<open>
  Claim C10. In the optional-signature mode with the four fields present and a
  \<open>set_data\<close> object that the validator accepts, \<open>validateGetOrSetNonceSetInput\<close>
  answers 403 with \<^verbatim>\<open>errors.data = "Should be equal to 'getOrSetNonce' or 'getNonce'"\<close>
  whenever \<open>set_data.data\<close> is neither of the two strings. The clock and the timestamp
  do not occur in the result: the test precedes the freshness check.
\<close>

theorem nonce_command_checked_before_freshness:
  assumes "validV2InputWithSig (body req)"
    and "map_of (body req) ''set_data'' = Some (JObj kvs)"
    and "validateInput env (JObj kvs) [''data'', ''timestamp''] = Inr (errors, True)"
    and "map_of kvs ''data'' \<noteq> Some (JStr ''getOrSetNonce'')"
    and "map_of kvs ''data'' \<noteq> Some (JStr ''getNonce'')"
  shows "validateGetOrSetNonceSetInput env req =
         Respond 403
           (JObj [(''error'', JObj (AList.update ''data'' (JStr msg_nonce) errors)),
                  (''success'', JBool False)])"
  using assms
  by (simp add: validateGetOrSetNonceSetInput_def default_empty_def nonce_commands_include_def
      error_response_def)

text \<open>
  The command \<^verbatim>\<open>hello\<close> with a timestamp of the year 1970: the answer is the error on
  \<open>data\<close>, not the one on the timestamp.
\<close>

theorem nonce_command_checked_before_freshness_witness:
  "validV2InputWithSig
     (envelope (JObj [(''data'', JStr ''hello''), (''timestamp'', JStr ''0'')]) sig64) \<and>
   validateGetOrSetNonceSetInput toy_env
     (request_of (envelope (JObj [(''data'', JStr ''hello''), (''timestamp'', JStr ''0'')]) sig64))
     = Respond 403
         (JObj [(''error'', JObj [(''data'', JStr msg_nonce)]), (''success'', JBool False)])"
  using nonce_command_checked_before_freshness [of
      "request_of (envelope (JObj [(''data'', JStr ''hello''), (''timestamp'', JStr ''0'')]) sig64)"
      "[(''data'', JStr ''hello''), (''timestamp'', JStr ''0'')]" toy_env "[]"]
  by (simp add: request_of_def envelope_def validV2InputWithSig_def has_key_def
      validateInput_eval)

section \<open>The replay guard\<close>



text \<open>One second older is rejected; a timestamp far in the future passes.\<close>

lemma replay_guard_rejects_at_61:
  "parseInt ''6553f0c3'' 16 = Some (nowSeconds toy_env - 61) \<and>
   validateMetadataInput toy_env
     (request_of (envelope (JObj [(''data'', JStr ''getNonce''), (''timestamp'', JStr ''6553f0c3'')]) sig64))
     = Respond 403
         (JObj [(''error'', JObj [(''timestamp'', JStr ''Message has been signed more than 60s ago'')]),
                (''success'', JBool False)])"
  by (simp add: request_of_def envelope_def validateInput_eval parseInt_eval nowSeconds_toy
      validateMetadataInput_def default_empty_def ToString_def signed_too_long_ago_def
      error_response_def msg_stale_def)

lemma replay_guard_accepts_future:
  "parseInt ''7fffffffffff'' 16 = Some 140737488355327 \<and>
   validateMetadataInput toy_env
     (request_of (envelope (JObj [(''data'', JStr ''getNonce''), (''timestamp'', JStr ''7fffffffffff'')]) sig64))
     = Next []"
  by (simp add: request_of_def envelope_def validateInput_eval parseInt_eval nowSeconds_toy
      validateMetadataInput_def default_empty_def ToString_def signed_too_long_ago_def)




section \<open>The optional-signature mode against the mandatory mode\<close>

text \<open>
  Claim C7, as stated: on a body with the four fields, \<open>validateGetOrSetNonceSetInput\<close>
  gives the verdict of \<open>validateMetadataInput\<close>. It fails on a fresh payload whose
  \<open>data\<close> is \<^verbatim>\<open>hello\<close>: the mandatory mode passes, the optional mode answers 403.
\<close>

theorem v2_differs_from_mandatory_counterexample:
  "validV2InputWithSig
     (envelope (JObj [(''data'', JStr ''hello''), (''timestamp'', JStr ''6553f100'')]) sig64) \<and>
   validateMetadataInput toy_env
     (request_of (envelope (JObj [(''data'', JStr ''hello''), (''timestamp'', JStr ''6553f100'')]) sig64))
     = Next [] \<and>
   validateGetOrSetNonceSetInput toy_env
     (request_of (envelope (JObj [(''data'', JStr ''hello''), (''timestamp'', JStr ''6553f100'')]) sig64))
     = Respond 403
         (JObj [(''error'', JObj [(''data'', JStr msg_nonce)]), (''success'', JBool False)])"
  by (simp add: request_of_def envelope_def validV2InputWithSig_def has_key_def
      validateInput_eval parseInt_eval nowSeconds_toy validateMetadataInput_def
      validateGetOrSetNonceSetInput_def default_empty_def ToString_def signed_too_long_ago_def
      nonce_commands_include_def error_response_def)

lemma get_prop_throws_alike: "get_prop v k = Inl e \<Longrightarrow> get_prop v k' = Inl e"
  by (cases "(v, k)" rule: get_prop.cases) simp_all

text \<open>
  Claim C7, amended. On a body with the four fields, the two middlewares give the same
  verdict unless the validator accepts \<open>set_data\<close> and \<open>set_data.data\<close> is neither
  \<^verbatim>\<open>getOrSetNonce\<close> nor \<^verbatim>\<open>getNonce\<close> (the case of claim C10).
\<close>

theorem v2_agrees_on_nonce_commands:
  assumes "validV2InputWithSig (body req)"
    and "map_of (body req) ''set_data'' = Some setData"
    and "\<forall>errors data.
           validateInput env setData [''data'', ''timestamp''] = Inr (errors, True) \<and>
           get_prop (Some setData) ''data'' = Inr data \<longrightarrow>
           data \<in> {Some (JStr ''getOrSetNonce''), Some (JStr ''getNonce'')}"
  shows "validateGetOrSetNonceSetInput env req = validateMetadataInput env req"
proof (cases "validateInput env setData [''data'', ''timestamp'']")
  case (Inl e)
  with assms(1,2) show ?thesis
    by (simp add: validateGetOrSetNonceSetInput_def validateMetadataInput_def default_empty_def)
next
  case (Inr p)
  obtain errors isValid where p: "p = (errors, isValid)" by (cases p)
  show ?thesis
  proof (cases isValid)
    case False
    with Inr p assms(1,2) show ?thesis
      by (simp add: validateGetOrSetNonceSetInput_def validateMetadataInput_def default_empty_def)
  next
    case True
    show ?thesis
    proof (cases "get_prop (Some setData) ''data''")
      case (Inl e)
      then have "get_prop (Some setData) ''timestamp'' = Inl e"
        by (rule get_prop_throws_alike)
      with True Inr p assms(1,2) show ?thesis
        by (simp add: validateGetOrSetNonceSetInput_def validateMetadataInput_def
            default_empty_def)
    next
      case (Inr data)
      with True \<open>validateInput env setData [''data'', ''timestamp''] = Inr p\<close> p assms(3)
      have "nonce_commands_include data"
        by (auto simp: nonce_commands_include_def)
      with Inr True \<open>validateInput env setData [''data'', ''timestamp''] = Inr p\<close> p assms(1,2)
      show ?thesis
        by (simp add: validateGetOrSetNonceSetInput_def validateMetadataInput_def
            default_empty_def split: sum.split)
    qed
  qed
qed

theorem v2_agrees_on_nonce_commands_witness:
  "validV2InputWithSig
     (envelope (JObj [(''data'', JStr ''getNonce''), (''timestamp'', JStr ''0'')]) sig64) \<and>
   validateInput toy_env (JObj [(''data'', JStr ''getNonce''), (''timestamp'', JStr ''0'')])
     [''data'', ''timestamp''] = Inr ([], True) \<and>
   validateGetOrSetNonceSetInput toy_env
     (request_of (envelope (JObj [(''data'', JStr ''getNonce''), (''timestamp'', JStr ''0'')]) sig64))
   = validateMetadataInput toy_env
     (request_of (envelope (JObj [(''data'', JStr ''getNonce''), (''timestamp'', JStr ''0'')]) sig64))"
  using v2_agrees_on_nonce_commands [of
      "request_of (envelope (JObj [(''data'', JStr ''getNonce''), (''timestamp'', JStr ''0'')]) sig64)"
      "JObj [(''data'', JStr ''getNonce''), (''timestamp'', JStr ''0'')]" toy_env]
  by (simp add: request_of_def envelope_def validV2InputWithSig_def has_key_def
      validateInput_eval)

section \<open>Batch fields that are not arrays\<close>

text \<open>
  Claim C6, as stated: each of the three batch middlewares answers 400 when the batch
  field is not an array. It fails for \<open>validateMetadataLoopInput\<close> and
  \<open>validateLoopSignature\<close>, whose test is commented out: on the string \<^verbatim>\<open>"x"\<close> they
  throw.
\<close>

theorem loop_on_non_array_counterexample:
  "\<not> isArray (map_of [(''shares'', JStr ''x'')] ''shares'') \<and>
   validateMetadataLoopInput toy_env ''shares'' True (request_of [(''shares'', JStr ''x'')])
     = Throw TypeError \<and>
   validateLoopSignature toy_env ''shares'' True (request_of [(''shares'', JStr ''x'')])
     = Throw TypeError"
  by (simp add: validateMetadataLoopInput_def validateLoopSignature_def request_of_def)

text \<open>
  Claim C6, amended. When the batch field is not an array, \<open>validationLoopMiddleware\<close>
  answers 400 with the message \<^verbatim>\<open><key> must be an array\<close>; the two other batch
  middlewares make no such test and throw a TypeError.
\<close>

theorem only_validationLoopMiddleware_tests_array:
  assumes "\<not> isArray (map_of (if isBody then body req else query req) key)"
  shows "validationLoopMiddleware env items key isBody req =
           Respond 400
             (JObj [(''error'', JObj [(''message'', JStr (key @ '' must be an array''))]),
                    (''success'', JBool False)]) \<and>
         validateMetadataLoopInput env key isBody req = Throw TypeError \<and>
         validateLoopSignature env key isBody req = Throw TypeError"
proof -
  have "(case map_of (if isBody then body req else query req) key of
           Some (JArr xs) \<Rightarrow> f xs | _ \<Rightarrow> d) = d" for f and d :: outcome
    using assms by (auto split: option.splits json.splits)
  then show ?thesis
    by (simp add: validationLoopMiddleware_def validateMetadataLoopInput_def
        validateLoopSignature_def error_response_def Let_def)
qed

theorem only_validationLoopMiddleware_tests_array_witness:
  "\<not> isArray (map_of [(''shares'', JStr ''x'')] ''shares'') \<and>
   validationLoopMiddleware toy_env [''namespace''] ''shares'' True
       (request_of [(''shares'', JStr ''x'')]) =
     Respond 400
       (JObj [(''error'', JObj [(''message'', JStr ''shares must be an array'')]),
              (''success'', JBool False)]) \<and>
   validateMetadataLoopInput toy_env ''shares'' True (request_of [(''shares'', JStr ''x'')])
     = Throw TypeError"
  using only_validationLoopMiddleware_tests_array [of True
      "request_of [(''shares'', JStr ''x'')]" "''shares''" toy_env "[''namespace'']"]
  by (simp add: request_of_def)

section \<open>The signature: its split into r and s\<close>














section \<open>The order of the stages\<close>




section \<open>Batches: the first failing item\<close>

text \<open>
  The three loops visit the items in order and end at the first item that fails; the
  items after it are not read. In \<open>validationLoopMiddleware\<close> the answer carries the
  index of the failing item, and so do the 403 and the error of the 500 in
  \<open>validateLoopSignature\<close> and the 400 of \<open>validateMetadataLoopInput\<close>.
\<close>

lemma validationLoop_first_failure:
  assumes "\<forall>p \<in> set pre. \<exists>e. validateInput env p items = Inr (e, True)"
    and "validateInput env x items = Inr (errors, False)"
  shows "validationLoop env items lcl index (pre @ x # post) =
           Respond 400
             (error_response
               (JObj (AList.update ''index'' (JNum (int (index + length pre))) errors)))"
  using assms
proof (induction pre arbitrary: index)
  case Nil
  then show ?case by simp
next
  case (Cons p pre)
  from Cons.prems(1) obtain e where "validateInput env p items = Inr (e, True)" by auto
  moreover have "validationLoop env items lcl (Suc index) (pre @ x # post) =
           Respond 400
             (error_response
               (JObj (AList.update ''index'' (JNum (int (Suc index + length pre))) errors)))"
    using Cons.IH [of "Suc index"] Cons.prems by simp
  ultimately show ?case by simp
qed

lemma signatureLoop_first_failure:
  assumes "\<forall>p \<in> set pre. verifyParam env p = Inr True"
    and "verifyParam env x = Inr False"
  shows "signatureLoop env lcl index (pre @ x # post) =
           Respond 403
             (error_response
               (JObj [(''index'', JNum (int (index + length pre))),
                      (''signature'', JStr ''Invalid signature'')]))"
  using assms
proof (induction pre arbitrary: index)
  case Nil
  then show ?case by simp
next
  case (Cons p pre)
  have "signatureLoop env lcl (Suc index) (pre @ x # post) =
           Respond 403
             (error_response
               (JObj [(''index'', JNum (int (Suc index + length pre))),
                      (''signature'', JStr ''Invalid signature'')]))"
    using Cons.IH [of "Suc index"] Cons.prems by simp
  with Cons.prems(1) show ?case by simp
qed

lemma signatureLoop_first_throw:
  assumes "\<forall>p \<in> set pre. verifyParam env p = Inr True"
    and "verifyParam env x = Inl error"
  shows "signatureLoop env lcl index (pre @ x # post) =
           Respond 500 (error_response (getError env (set_index (index + length pre) error)))"
  using assms
proof (induction pre arbitrary: index)
  case Nil
  then show ?case by simp
next
  case (Cons p pre)
  have "signatureLoop env lcl (Suc index) (pre @ x # post) =
           Respond 500 (error_response (getError env (set_index (Suc index + length pre) error)))"
    using Cons.IH [of "Suc index"] Cons.prems by simp
  with Cons.prems(1) show ?case by simp
qed

lemma metadataLoop_skip:
  assumes "\<forall>p \<in> set pre. \<forall>j. metadataLoop env lcl j [p] = Next lcl"
  shows "metadataLoop env lcl index (pre @ rest) = metadataLoop env lcl (index + length pre) rest"
  using assms
proof (induction pre arbitrary: index)
  case Nil
  then show ?case by simp
next
  case (Cons p pre)
  from Cons.prems have one: "metadataLoop env lcl index [p] = Next lcl" by simp
  have step: "metadataLoop env lcl index (p # pre @ rest) =
              metadataLoop env lcl (Suc index) (pre @ rest)"
    using one
    by (auto simp: Let_def split: sum.splits prod.splits if_splits)
  show ?case
    using step Cons.IH [of "Suc index"] Cons.prems by simp
qed

lemma metadataLoop_invalid_item:
  assumes "\<forall>p \<in> set pre. \<forall>j. metadataLoop env lcl j [p] = Next lcl"
    and "map_of b ''set_data'' = Some (JObj kvs)"
    and "validateInput env (JObj kvs) [''data'', ''timestamp''] = Inr (errors, False)"
  shows "metadataLoop env lcl index (pre @ JObj b # post) =
           Respond 400
             (error_response
               (JObj (AList.update ''index'' (JNum (int (index + length pre))) errors)))"
  using assms(2,3)
  by (simp add: metadataLoop_skip [OF assms(1)] default_empty_def)

text \<open>
  The 403 of a stale item in \<open>validateMetadataLoopInput\<close> is built from the errors of
  the validator and the message on the timestamp alone (lines 84 and 85): no index is
  written to it.
\<close>

lemma metadataLoop_stale_item:
  assumes "\<forall>p \<in> set pre. \<forall>j. metadataLoop env lcl j [p] = Next lcl"
    and "map_of b ''set_data'' = Some (JObj kvs)"
    and "validateInput env (JObj kvs) [''data'', ''timestamp''] = Inr (errors, True)"
    and "parseInt (ToString (map_of kvs ''timestamp'')) 16 = Some t"
    and "nowSeconds env - t > 60"
  shows "metadataLoop env lcl index (pre @ JObj b # post) =
           Respond 403
             (error_response (JObj (AList.update ''timestamp'' (JStr msg_stale) errors)))"
  using assms(2-5)
  by (simp add: metadataLoop_skip [OF assms(1)] default_empty_def signed_too_long_ago_def)

text \<open>
  Claim C2: every batch middleware visits the items in order, stops at the first failing
  item, and the error for the failing item at position \<open>i\<close> carries \<open>index = i\<close>.
  The code at a batch whose item 0 is fresh and whose item 1 is stale: the answer of
  \<open>validateMetadataLoopInput\<close> is the 403 on the timestamp, with no \<open>index\<close> in it.
\<close>

theorem stale_batch_item_reported_without_index:
  "validateMetadataLoopInput toy_env ''shares'' True
     (request_of
        [(''shares'',
          JArr [JObj (envelope (JObj [(''data'', JStr ''a''), (''timestamp'', JStr ''6553f100'')]) sig64),
                JObj (envelope (JObj [(''data'', JStr ''b''), (''timestamp'', JStr ''0'')]) sig64)])])
     = Respond 403
         (JObj [(''error'', JObj [(''timestamp'', JStr ''Message has been signed more than 60s ago'')]),
                (''success'', JBool False)])"
  by (simp add: validateMetadataLoopInput_def request_of_def envelope_def validateInput_eval
      parseInt_eval nowSeconds_toy default_empty_def ToString_def signed_too_long_ago_def
      error_response_def msg_stale_def)

section \<open>Canonical serialisation and the order of insertion\<close>

text \<open>
  A list of pairs with distinct keys is determined, once sorted by key, by its set of
  pairs.
\<close>

lemma filter_key_singleton:
  "distinct (map fst zs) \<Longrightarrow> k \<in> set zs \<Longrightarrow> filter (\<lambda>x. fst k = fst x) zs = [k]"
proof (induction zs)
  case Nil
  then show ?case by simp
next
  case (Cons z zs)
  show ?case
  proof (cases "k = z")
    case True
    have "filter (\<lambda>x. fst z = fst x) zs = []"
      using Cons.prems(1) by (auto simp: filter_empty_conv image_iff)
    with True show ?thesis by simp
  next
    case False
    with Cons.prems have "k \<in> set zs" by simp
    moreover from this Cons.prems(1) have "fst k \<noteq> fst z" by (auto simp: image_iff)
    ultimately show ?thesis using Cons.IH Cons.prems(1) by simp
  qed
qed

lemma sort_key_unique:
  assumes "distinct (map fst xs)" and "distinct (map fst ys)" and "set xs = set ys"
  shows "sort_key fst xs = sort_key fst (ys :: ('a::linorder \<times> 'b) list)"
proof (rule properties_for_sort_key)
  have "distinct xs" "distinct ys"
    using assms(1,2) by (simp_all add: distinct_map)
  then have "mset xs = mset ys"
    using assms(3) by (simp add: set_eq_iff_mset_eq_distinct)
  then show "mset (sort_key fst ys) = mset xs" by simp
next
  fix k assume "k \<in> set (sort_key fst ys)"
  then have k: "k \<in> set ys" by simp
  have "filter (\<lambda>x. fst k = fst x) (sort_key fst ys) = sort_key fst (filter (\<lambda>x. fst k = fst x) ys)"
    by (simp add: filter_sort)
  also have "\<dots> = [k]"
    using filter_key_singleton [OF assms(2) k] by simp
  also have "\<dots> = filter (\<lambda>x. fst k = fst x) xs"
    using filter_key_singleton [OF assms(1)] k assms(3) by simp
  finally show "filter (\<lambda>x. fst k = fst x) (sort_key fst ys) = filter (\<lambda>x. fst k = fst x) xs" .
next
  show "sorted (map fst (sort_key fst ys))" by simp
qed

lemma rendered_set:
  assumes "distinct (map fst kvs)"
  shows "(k, s) \<in> set (map (\<lambda>(k, v). (k, f v)) kvs) \<longleftrightarrow> map_option f (map_of kvs k) = Some s"
  using assms by (induction kvs) (auto simp: image_iff)

lemma stringify_json_equiv: "json_equiv p q \<Longrightarrow> stringify_json p = stringify_json q"
proof (induction rule: json_equiv.induct)
  case (equiv_arr xs ys)
  then have "map stringify_json xs = map stringify_json ys"
    by (induction xs ys rule: list_all2_induct) simp_all
  then show ?case by simp
next
  case (equiv_obj kvs kvs')
  let ?A = "map (\<lambda>(k, v). (k, stringify_json v)) kvs"
  let ?B = "map (\<lambda>(k, v). (k, stringify_json v)) kvs'"
  have same: "map_option stringify_json (map_of kvs k) = map_option stringify_json (map_of kvs' k)" for k
  proof -
    from equiv_obj(3) have
      "rel_option (\<lambda>x y. json_equiv x y \<and> stringify_json x = stringify_json y)
         (map_of kvs k) (map_of kvs' k)" by blast
    then show ?thesis by (cases rule: option.rel_cases) simp_all
  qed
  have "set ?A = set ?B"
  proof (rule set_eqI)
    fix x :: "string \<times> string"
    obtain k s where x: "x = (k, s)" by (cases x)
    show "x \<in> set ?A \<longleftrightarrow> x \<in> set ?B"
      unfolding x rendered_set [OF equiv_obj(1)] rendered_set [OF equiv_obj(2)] same ..
  qed
  moreover have keys: "map fst ?A = map fst kvs" "map fst ?B = map fst kvs'"
    by (simp_all add: case_prod_beta comp_def)
  moreover have "distinct (map fst ?A)" "distinct (map fst ?B)"
    unfolding keys using equiv_obj(1,2) by simp_all
  ultimately have "sort_key fst ?A = sort_key fst ?B"
    by (intro sort_key_unique)
  then show ?case by simp
qed simp_all

lemma equiv_example:
  "json_equiv
     (JObj [(''timestamp'', JStr ''6553f100''),
            (''data'', JObj [(''y'', JNum 2), (''x'', JArr [JNull, JBool True])])])
     (JObj [(''data'', JObj [(''x'', JArr [JNull, JBool True]), (''y'', JNum 2)]),
            (''timestamp'', JStr ''6553f100'')])"
  by (auto intro!: json_equiv.intros)

text \<open>The canonical string of the first of the two payloads.\<close>

lemma stringify_example:
  "stringify
     (Some (JObj [(''timestamp'', JStr ''6553f100''),
                  (''data'', JObj [(''y'', JNum 2), (''x'', JArr [JNull, JBool True])])])) =
   Some ([CHR ''{'', CHR 0x22] @ ''data'' @ [CHR 0x22] @ '':{'' @ [CHR 0x22] @ ''x'' @ [CHR 0x22] @
         '':[null,true],'' @ [CHR 0x22] @ ''y'' @ [CHR 0x22] @ '':2},'' @ [CHR 0x22] @
         ''timestamp'' @ [CHR 0x22, CHR '':'', CHR 0x22] @ ''6553f100'' @ [CHR 0x22] @ ''}'')"
  by code_simp

text \<open>
  Claim C8. Two payloads that are equal as data and differ in the order of insertion of
  their keys have the same canonical string, so the same bytes are hashed and the
  verification of a signature gives the same result on both.
\<close>

theorem canonical_bytes_independent_of_insertion_order:
  assumes "json_equiv p q"
  shows "stringify (Some p) = stringify (Some q) \<and>
         verifyEnvelope env x y sg (Some p) = verifyEnvelope env x y sg (Some q) \<and>
         validateSignature env (req\<lparr>body := AList.update ''set_data'' p b\<rparr>) =
           validateSignature env (req\<lparr>body := AList.update ''set_data'' q b\<rparr>)"
proof -
  have s: "stringify (Some p) = stringify (Some q)"
    using stringify_json_equiv [OF assms] by (simp add: stringify_def)
  have v: "verifyEnvelope env x y sg (Some p) = verifyEnvelope env x y sg (Some q)" for x y sg
    unfolding verifyEnvelope_def s by (rule refl)
  have "validateSignature env (req\<lparr>body := AList.update ''set_data'' p b\<rparr>) =
           validateSignature env (req\<lparr>body := AList.update ''set_data'' q b\<rparr>)"
    by (simp add: validateSignature_def update_conv' v split: sum.split)
  with s v show ?thesis by blast
qed

theorem canonical_bytes_independent_of_insertion_order_witness:
  "json_equiv
     (JObj [(''timestamp'', JStr ''6553f100''),
            (''data'', JObj [(''y'', JNum 2), (''x'', JArr [JNull, JBool True])])])
     (JObj [(''data'', JObj [(''x'', JArr [JNull, JBool True]), (''y'', JNum 2)]),
            (''timestamp'', JStr ''6553f100'')]) \<and>
   stringify
     (Some (JObj [(''timestamp'', JStr ''6553f100''),
                  (''data'', JObj [(''y'', JNum 2), (''x'', JArr [JNull, JBool True])])])) =
   stringify
     (Some (JObj [(''data'', JObj [(''x'', JArr [JNull, JBool True]), (''y'', JNum 2)]),
                  (''timestamp'', JStr ''6553f100'')]))"
  using canonical_bytes_independent_of_insertion_order [OF equiv_example, of toy_env]
    equiv_example
  by blast

end
